theory Spec2Isabelle
  imports Complex_Main
begin

section \<open>Users, roles and requests\<close>

text \<open>
  The API of \<^verbatim>\<open>api_yamdb/api\<close>: the permission classes of \<^verbatim>\<open>permissions.py\<close> and the
  views of \<^verbatim>\<open>views.py\<close>. The models (\<^verbatim>\<open>reviews/models.py\<close>) and the serializers
  (\<^verbatim>\<open>api/serializers.py\<close>) are imported by these two files and are not part of them.
\<close>

datatype role = RoleUser | RoleModerator | RoleAdmin

record user =
  user_id :: nat
  username :: string
  email :: string
  role :: role

text \<open>
  Modelled from the spec: the properties \<^verbatim>\<open>User.is_admin\<close> and \<^verbatim>\<open>User.is_moderator\<close> of
  \<^verbatim>\<open>reviews/models.py\<close>, which the permission classes read: "role determines authority
  tier; is_admin / is_moderator are derived predicates", "principal role == admin".
\<close>

definition is_admin :: "user \<Rightarrow> bool" where
  "is_admin u = (role u = RoleAdmin)"

definition is_moderator :: "user \<Rightarrow> bool" where
  "is_moderator u = (role u = RoleModerator)"

text \<open>
  \<^verbatim>\<open>request.user\<close> is Django's \<^verbatim>\<open>AnonymousUser\<close> or a \<^verbatim>\<open>User\<close> row. Only the latter
  has \<^verbatim>\<open>is_admin\<close> and \<^verbatim>\<open>is_moderator\<close>.
\<close>

datatype principal = AnonymousUser | AuthUser user

record request =
  "method" :: string
  user :: principal

definition is_authenticated :: "principal \<Rightarrow> bool" where
  "is_authenticated p = (case p of AnonymousUser \<Rightarrow> False | AuthUser u \<Rightarrow> True)"

text \<open>
  The idiom \<^verbatim>\<open>request.user.is_authenticated and request.user.<attr>\<close>: Python's \<^verbatim>\<open>and\<close>
  reads the attribute only when the principal is authenticated, that is, only on a
  \<^verbatim>\<open>User\<close>.
\<close>

definition authenticated_and :: "principal \<Rightarrow> (user \<Rightarrow> bool) \<Rightarrow> bool" where
  "authenticated_and p attr = (case p of AnonymousUser \<Rightarrow> False | AuthUser u \<Rightarrow> attr u)"

text \<open>
  \<^verbatim>\<open>obj.author == request.user\<close>: two rows of one Django model are equal when their
  primary keys are; a row never equals \<^verbatim>\<open>AnonymousUser\<close>.
\<close>

definition user_eq :: "user \<Rightarrow> principal \<Rightarrow> bool" where
  "user_eq a p = (case p of AnonymousUser \<Rightarrow> False | AuthUser u \<Rightarrow> user_id a = user_id u)"

text \<open>\<^verbatim>\<open>rest_framework.permissions.SAFE_METHODS\<close>.\<close>

definition SAFE_METHODS :: "string list" where
  "SAFE_METHODS = [''GET'', ''HEAD'', ''OPTIONS'']"

section \<open>permissions.py\<close>

text \<open>
  The object a view hands to the object-level check: its Python type, as far as
  \<^verbatim>\<open>has_object_permission\<close> tells types apart, and its \<^verbatim>\<open>author\<close>. Every model the
  views save with \<^verbatim>\<open>author=self.request.user\<close> has that attribute.
\<close>

datatype obj_type = Comment | Review | Other

record obj =
  obj_type :: obj_type
  author :: user

definition IsAuthorOrReadOnlyPermission_has_permission :: "request \<Rightarrow> bool" where
  "IsAuthorOrReadOnlyPermission_has_permission req =
     (method req \<in> set SAFE_METHODS \<or> is_authenticated (user req))"

definition IsAuthorOrReadOnlyPermission_has_object_permission :: "request \<Rightarrow> obj \<Rightarrow> bool" where
  "IsAuthorOrReadOnlyPermission_has_object_permission req ob =
     (if authenticated_and (user req) is_admin then True
      else if (obj_type ob = Comment \<or> obj_type ob = Review)
              \<and> authenticated_and (user req) is_moderator then True
      else (user_eq (author ob) (user req) \<or> method req \<in> set SAFE_METHODS))"

definition IsAdminPermission_has_permission :: "request \<Rightarrow> bool" where
  "IsAdminPermission_has_permission req = authenticated_and (user req) is_admin"

definition IsAdminOrReadOnly_has_permission :: "request \<Rightarrow> bool" where
  "IsAdminOrReadOnly_has_permission req =
     (if method req \<in> set SAFE_METHODS then True
      else authenticated_and (user req) is_admin)"

section \<open>The request dispatcher of the framework\<close>

text \<open>
  What a view raises, as the framework's exception classes; \<^verbatim>\<open>ServerError\<close> stands for
  an exception the framework does not turn into a response of its own (the name of the
  exception class is kept).
\<close>

datatype error =
    ValidationError
  | NotAuthenticated
  | PermissionDenied
  | Http404
  | MethodNotAllowed string
  | ServerError string

fun status_code :: "error \<Rightarrow> nat" where
  "status_code ValidationError = 400"
| "status_code NotAuthenticated = 401"
| "status_code PermissionDenied = 403"
| "status_code Http404 = 404"
| "status_code (MethodNotAllowed m) = 405"
| "status_code (ServerError e) = 500"

text \<open>
  The permission classes the views name. \<^verbatim>\<open>IsAuthenticated\<close> is the framework's own;
  a class that does not define \<^verbatim>\<open>has_object_permission\<close> inherits the one of
  \<^verbatim>\<open>BasePermission\<close>, which returns \<^verbatim>\<open>True\<close>.
\<close>

datatype permission =
  IsAuthenticated | IsAdminPermission | IsAdminOrReadOnly | IsAuthorOrReadOnlyPermission

fun has_permission :: "permission \<Rightarrow> request \<Rightarrow> bool" where
  "has_permission IsAuthenticated req = is_authenticated (user req)"
| "has_permission IsAdminPermission req = IsAdminPermission_has_permission req"
| "has_permission IsAdminOrReadOnly req = IsAdminOrReadOnly_has_permission req"
| "has_permission IsAuthorOrReadOnlyPermission req =
     IsAuthorOrReadOnlyPermission_has_permission req"

fun has_object_permission :: "permission \<Rightarrow> request \<Rightarrow> obj \<Rightarrow> bool" where
  "has_object_permission IsAuthorOrReadOnlyPermission req ob =
     IsAuthorOrReadOnlyPermission_has_object_permission req ob"
| "has_object_permission p req ob = True"

text \<open>
  \<^verbatim>\<open>APIView.permission_denied\<close>, with an authentication class configured: a request
  that did not authenticate gets \<^verbatim>\<open>NotAuthenticated\<close>, any other \<^verbatim>\<open>PermissionDenied\<close>.
\<close>

definition permission_denied :: "request \<Rightarrow> error" where
  "permission_denied req =
     (if is_authenticated (user req) then PermissionDenied else NotAuthenticated)"

text \<open>
  \<^verbatim>\<open>APIView.check_permissions\<close>, which \<^verbatim>\<open>APIView.initial\<close> runs before the handler of
  the request is called, and \<^verbatim>\<open>APIView.check_object_permissions\<close>, which
  \<^verbatim>\<open>GenericAPIView.get_object\<close> runs on the row it found.
\<close>

fun check_permissions :: "permission list \<Rightarrow> request \<Rightarrow> error + unit" where
  "check_permissions [] req = Inr ()"
| "check_permissions (p # ps) req =
     (if has_permission p req then check_permissions ps req
      else Inl (permission_denied req))"

fun check_object_permissions :: "permission list \<Rightarrow> request \<Rightarrow> obj \<Rightarrow> error + unit" where
  "check_object_permissions [] req ob = Inr ()"
| "check_object_permissions (p # ps) req ob =
     (if has_object_permission p req ob then check_object_permissions ps req ob
      else Inl (permission_denied req))"

text \<open>
  \<^verbatim>\<open>get_object_or_404\<close> on a lookup that identifies at most one row (a primary key or
  a unique column).
\<close>

definition get_object_or_404 :: "('a \<Rightarrow> bool) \<Rightarrow> 'a list \<Rightarrow> error + 'a" where
  "get_object_or_404 P rows = (case find P rows of None \<Rightarrow> Inl Http404 | Some x \<Rightarrow> Inr x)"

text \<open>
  The actions of a \<^verbatim>\<open>ModelViewSet\<close> and the router's table from the HTTP method to
  the action, for the collection route (\<open>detail = False\<close>) and the route of one row
  (\<open>detail = True\<close>). \<^verbatim>\<open>HEAD\<close> is bound to the handler of \<^verbatim>\<open>GET\<close>; \<^verbatim>\<open>OPTIONS\<close> is
  answered by the view's metadata. A method with no entry has no handler.
\<close>

datatype action =
  A_list | A_create | A_retrieve | A_update | A_partial_update | A_destroy | A_metadata

definition route :: "bool \<Rightarrow> string \<Rightarrow> action option" where
  "route detail m =
     (if m = ''OPTIONS'' then Some A_metadata
      else if detail then
        (if m = ''GET'' \<or> m = ''HEAD'' then Some A_retrieve
         else if m = ''PUT'' then Some A_update
         else if m = ''PATCH'' then Some A_partial_update
         else if m = ''DELETE'' then Some A_destroy
         else None)
      else
        (if m = ''GET'' \<or> m = ''HEAD'' then Some A_list
         else if m = ''POST'' then Some A_create
         else None))"

text \<open>
  What a request on the route of one row comes to when nothing is raised: the action
  that ran with the object its handler fetched, or the metadata that answers
  \<^verbatim>\<open>OPTIONS\<close>.
\<close>

datatype 'a outcome = Fetched action 'a | Metadata

text \<open>
  \<^verbatim>\<open>APIView.dispatch\<close> on the route of one row: \<^verbatim>\<open>initial\<close> checks the permissions,
  then the handler of the method is looked up, and a method without a handler is
  answered by \<^verbatim>\<open>http_method_not_allowed\<close>; the handlers of retrieve, update, partial
  update and destroy start by calling \<^verbatim>\<open>get_object()\<close>, whose result is \<open>fetched\<close>.
\<close>

definition detail_route :: "permission list \<Rightarrow> request \<Rightarrow> error + 'a \<Rightarrow> error + 'a outcome" where
  "detail_route permissions req fetched =
     (case check_permissions permissions req of
        Inl err \<Rightarrow> Inl err
      | Inr ok \<Rightarrow>
          (case route True (method req) of
             None \<Rightarrow> Inl (MethodNotAllowed (method req))
           | Some a \<Rightarrow>
               (if a = A_metadata then Inr Metadata
                else (case fetched of
                        Inl err \<Rightarrow> Inl err
                      | Inr x \<Rightarrow> Inr (Fetched a x)))))"

section \<open>The persistent store and the email channel\<close>

record confirmation_code =
  code_user :: user
  code :: string

record title =
  title_id :: nat
  title_name :: string
  pub_date :: int

record review =
  review_id :: nat
  title_fk :: nat
  review_author :: user
  review_text :: string
  score :: int

record mail =
  subject :: string
  message :: string
  from_email :: string
  recipient_list :: "string list"

text \<open>
  The rows of the tables the views touch, and \<open>mail_calls\<close>: every message handed to
  \<^verbatim>\<open>send_mail\<close>, delivered or not.
\<close>

record state =
  users :: "user list"
  codes :: "confirmation_code list"
  titles :: "title list"
  reviews :: "review list"
  mail_calls :: "mail list"

text \<open>The primary key the store gives a new row: one not in use.\<close>

definition fresh_id :: "nat list \<Rightarrow> nat" where
  "fresh_id ids = Suc (fold max ids 0)"

text \<open>
  What the storage layer decides and the views do not: whether a new review meets the
  constraints of \<^verbatim>\<open>reviews/models.py\<close>, and whether a number is beyond what the
  backend takes as the value of an integer column in a lookup.
\<close>

record storage =
  constraint_ok :: "review list \<Rightarrow> review \<Rightarrow> bool"
  out_of_range :: "nat \<Rightarrow> bool"

section \<open>views.py: RegistrationView\<close>

record registration_data =
  data_username :: string
  data_email :: string

text \<open>
  What the view takes from outside: the format rules of the serializer's fields, the
  email channel (whether it accepts a message), \<^verbatim>\<open>settings.ADMIN_EMAIL\<close> and the value
  of \<^verbatim>\<open>uuid.uuid4().hex\<close>.
\<close>

record env =
  well_formed :: "registration_data \<Rightarrow> bool"
  send_ok :: "mail \<Rightarrow> bool"
  ADMIN_EMAIL :: string
  uuid4_hex :: string

text \<open>
  Modelled from the spec: \<^verbatim>\<open>RegistrationSerializer.is_valid(raise_exception=True)\<close> of
  \<^verbatim>\<open>api/serializers.py\<close>: "validate uniqueness of username and email", "Fails with
  ValidationError if username/email already taken or malformed".
\<close>

definition RegistrationSerializer_is_valid ::
    "(registration_data \<Rightarrow> bool) \<Rightarrow> state \<Rightarrow> registration_data \<Rightarrow> error + registration_data" where
  "RegistrationSerializer_is_valid fmt s d =
     (if \<not> fmt d then Inl ValidationError
      else if data_username d \<in> set (map username (users s)) then Inl ValidationError
      else if data_email d \<in> set (map email (users s)) then Inl ValidationError
      else Inr d)"

text \<open>
  Modelled from the spec: the default of \<^verbatim>\<open>User.role\<close> in \<^verbatim>\<open>reviews/models.py\<close>; a
  registration creates a regular user.
\<close>

definition default_role :: role where
  "default_role = RoleUser"

text \<open>
  \<^verbatim>\<open>User(username=..., email=...)\<close> followed by \<^verbatim>\<open>user.save()\<close>, and
  \<^verbatim>\<open>ConfirmationCode(user=..., code=...)\<close> followed by \<^verbatim>\<open>confirmation_code.save()\<close>. The
  view opens no transaction: each \<^verbatim>\<open>save()\<close> writes the row at once.
\<close>

definition User_save :: "string \<Rightarrow> string \<Rightarrow> state \<Rightarrow> user \<times> state" where
  "User_save name mail_address s =
     (let u = \<lparr>user_id = fresh_id (map user_id (users s)), username = name,
                email = mail_address, role = default_role\<rparr>
      in (u, s\<lparr>users := users s @ [u]\<rparr>))"

definition ConfirmationCode_save :: "user \<Rightarrow> string \<Rightarrow> state \<Rightarrow> confirmation_code \<times> state" where
  "ConfirmationCode_save u c s =
     (let cc = \<lparr>code_user = u, code = c\<rparr>
      in (cc, s\<lparr>codes := codes s @ [cc]\<rparr>))"

text \<open>
  \<^verbatim>\<open>send_mail(..., fail_silently=False)\<close>: the message goes to the channel; when the
  channel fails, the backend's exception propagates.
\<close>

definition send_mail :: "(mail \<Rightarrow> bool) \<Rightarrow> mail \<Rightarrow> state \<Rightarrow> (error + unit) \<times> state" where
  "send_mail channel m s =
     (if channel m then Inr () else Inl (ServerError ''SMTPException''),
      s\<lparr>mail_calls := mail_calls s @ [m]\<rparr>)"

definition RegistrationView_post ::
    "env \<Rightarrow> registration_data \<Rightarrow> state \<Rightarrow> (error + registration_data) \<times> state" where
  "RegistrationView_post e request_data s =
     (case RegistrationSerializer_is_valid (well_formed e) s request_data of
        Inl err \<Rightarrow> (Inl err, s)
      | Inr data \<Rightarrow>
          (let (u, s1) = User_save (data_username data) (data_email data) s;
               (confirmation, s2) = ConfirmationCode_save u (uuid4_hex e) s1;
               (sent, s3) = send_mail (send_ok e)
                  \<lparr>subject = ''Your confirmation code'', message = code confirmation,
                   from_email = ADMIN_EMAIL e, recipient_list = [email u]\<rparr> s2
           in (case sent of
                 Inl err \<Rightarrow> (Inl err, s3)
               | Inr ok \<Rightarrow> (Inr data, s3))))"

section \<open>views.py: UserViewSet\<close>

text \<open>\<^verbatim>\<open>'username' in self.kwargs and self.kwargs['username'] == 'me'\<close>.\<close>

definition is_me :: "(string \<rightharpoonup> string) \<Rightarrow> bool" where
  "is_me kwargs = (case kwargs ''username'' of None \<Rightarrow> False | Some v \<Rightarrow> v = ''me'')"

definition UserViewSet_get_permissions :: "(string \<rightharpoonup> string) \<Rightarrow> permission list" where
  "UserViewSet_get_permissions kwargs =
     (if is_me kwargs then [IsAuthenticated] else [IsAdminPermission])"

text \<open>
  \<^verbatim>\<open>UserViewSet.get_object\<close>. Its last line is the framework's \<^verbatim>\<open>get_object\<close> with
  \<^verbatim>\<open>lookup_field = 'username'\<close>: it asserts that the URL gave the lookup value and
  looks the row up; \<^verbatim>\<open>IsAdminPermission\<close> has no object-level check of its own to fail
  there.
\<close>

definition UserViewSet_get_object ::
    "request \<Rightarrow> (string \<rightharpoonup> string) \<Rightarrow> state \<Rightarrow> error + principal" where
  "UserViewSet_get_object req kwargs s =
     (if is_me kwargs then
        (if method req = ''DELETE'' then Inl (MethodNotAllowed (method req))
         else Inr (user req))
      else
        (case kwargs ''username'' of
           None \<Rightarrow> Inl (ServerError ''AssertionError'')
         | Some name \<Rightarrow>
             (case get_object_or_404 (\<lambda>u. username u = name) (users s) of
                Inl err \<Rightarrow> Inl err
              | Inr u \<Rightarrow> Inr (AuthUser u))))"

text \<open>
  A request on \<^verbatim>\<open>/users/{username}/\<close>: the dispatcher checks \<^verbatim>\<open>get_permissions()\<close>,
  finds the handler of the method, and the handler calls \<^verbatim>\<open>get_object()\<close>.
\<close>

definition UserViewSet_detail ::
    "request \<Rightarrow> (string \<rightharpoonup> string) \<Rightarrow> state \<Rightarrow> error + principal outcome" where
  "UserViewSet_detail req kwargs s =
     detail_route (UserViewSet_get_permissions kwargs) req (UserViewSet_get_object req kwargs s)"

section \<open>views.py: CategoriesViewSet and GenresViewSet\<close>

text \<open>
  A response built by the view itself, by its status, or the handler the view inherits
  from \<^verbatim>\<open>ModelViewSet\<close> for the action (whose result is not modelled).
\<close>

datatype response = Response nat | Inherited action

definition CategoriesViewSet_retrieve :: "request \<Rightarrow> response" where
  "CategoriesViewSet_retrieve req = Response 405"

definition CategoriesViewSet_update :: "request \<Rightarrow> response" where
  "CategoriesViewSet_update req = Response 405"

text \<open>
  The handler of each action: the two overrides; \<^verbatim>\<open>partial_update\<close>, which the
  framework's \<^verbatim>\<open>UpdateModelMixin\<close> defines as a call of \<^verbatim>\<open>self.update\<close> with
  \<^verbatim>\<open>partial=True\<close>; the inherited handler for the rest.
\<close>

definition CategoriesViewSet_handler :: "action \<Rightarrow> request \<Rightarrow> response" where
  "CategoriesViewSet_handler a req =
     (case a of
        A_retrieve \<Rightarrow> CategoriesViewSet_retrieve req
      | A_update \<Rightarrow> CategoriesViewSet_update req
      | A_partial_update \<Rightarrow> CategoriesViewSet_update req
      | A_list \<Rightarrow> Inherited A_list
      | A_create \<Rightarrow> Inherited A_create
      | A_destroy \<Rightarrow> Inherited A_destroy
      | A_metadata \<Rightarrow> Inherited A_metadata)"

text \<open>
  A request to the view: \<^verbatim>\<open>permission_classes = (IsAdminOrReadOnly,)\<close> is checked
  first, then the handler of the routed action runs; a method without a handler is
  answered with \<^verbatim>\<open>MethodNotAllowed\<close>.
\<close>

definition CategoriesViewSet_dispatch :: "bool \<Rightarrow> request \<Rightarrow> error + response" where
  "CategoriesViewSet_dispatch detail req =
     (case check_permissions [IsAdminOrReadOnly] req of
        Inl err \<Rightarrow> Inl err
      | Inr ok \<Rightarrow>
          (case route detail (method req) of
             None \<Rightarrow> Inl (MethodNotAllowed (method req))
           | Some a \<Rightarrow> Inr (CategoriesViewSet_handler a req)))"

text \<open>
  \<^verbatim>\<open>GenresViewSet\<close> subclasses \<^verbatim>\<open>CategoriesViewSet\<close> and replaces only \<^verbatim>\<open>queryset\<close> and
  \<^verbatim>\<open>serializer_class\<close>.
\<close>

definition GenresViewSet_dispatch :: "bool \<Rightarrow> request \<Rightarrow> error + response" where
  "GenresViewSet_dispatch detail req = CategoriesViewSet_dispatch detail req"

text \<open>The status of a result is 405.\<close>

fun is_405 :: "error + response \<Rightarrow> bool" where
  "is_405 (Inl err) = (status_code err = 405)"
| "is_405 (Inr (Response n)) = (n = 405)"
| "is_405 (Inr (Inherited a)) = False"

section \<open>views.py: ReviewViewSet\<close>

text \<open>
  The serializer's \<^verbatim>\<open>validated_data\<close>, a dictionary: the text and the score, and an
  author or a title when the request body gave one and the serializer let it through.
\<close>

record review_fields =
  f_text :: string
  f_score :: int
  f_author :: "principal option"
  f_title :: "title option"

text \<open>
  \<^verbatim>\<open>Review.objects.create(**validated_data)\<close>, which the serializer's \<^verbatim>\<open>create\<close>
  calls. The author must be a \<^verbatim>\<open>User\<close> row, and the storage layer must accept the new
  row.
\<close>

definition Review_objects_create ::
    "storage \<Rightarrow> review_fields \<Rightarrow> state \<Rightarrow> (error + review) \<times> state" where
  "Review_objects_create st data s =
     (case f_author data of
        None \<Rightarrow> (Inl (ServerError ''IntegrityError''), s)
      | Some AnonymousUser \<Rightarrow> (Inl (ServerError ''ValueError''), s)
      | Some (AuthUser u) \<Rightarrow>
          (case f_title data of
             None \<Rightarrow> (Inl (ServerError ''IntegrityError''), s)
           | Some t \<Rightarrow>
               (let r = \<lparr>review_id = fresh_id (map review_id (reviews s)),
                          title_fk = title_id t, review_author = u,
                          review_text = f_text data, score = f_score data\<rparr>
                in if constraint_ok st (reviews s) r
                   then (Inr r, s\<lparr>reviews := reviews s @ [r]\<rparr>)
                   else (Inl (ServerError ''IntegrityError''), s))))"

text \<open>
  \<^verbatim>\<open>serializer.save(author=..., title=...)\<close>: the framework merges the keyword
  arguments over the validated data (\<^verbatim>\<open>{**self.validated_data, **kwargs}\<close>) and creates
  the row from the result.
\<close>

definition ReviewSerializer_save ::
    "storage \<Rightarrow> review_fields \<Rightarrow> principal \<Rightarrow> title \<Rightarrow> state \<Rightarrow> (error + review) \<times> state" where
  "ReviewSerializer_save st validated_data author_kw title_kw s =
     Review_objects_create st
       (validated_data\<lparr>f_author := Some author_kw, f_title := Some title_kw\<rparr>) s"

text \<open>
  \<^verbatim>\<open>get_object_or_404(Title, id=title_id)\<close> with \<^verbatim>\<open>title_id = self.kwargs.get('title_id')\<close>:
  an absent key gives \<^verbatim>\<open>None\<close>, which is the id of no title; a number the backend does
  not take as an integer makes the lookup raise instead of finding nothing.
\<close>

definition Title_or_404 :: "storage \<Rightarrow> (string \<rightharpoonup> nat) \<Rightarrow> state \<Rightarrow> error + title" where
  "Title_or_404 st kwargs s =
     (case kwargs ''title_id'' of
        None \<Rightarrow> Inl Http404
      | Some n \<Rightarrow>
          (if out_of_range st n then Inl (ServerError ''OverflowError'')
           else get_object_or_404 (\<lambda>t. title_id t = n) (titles s)))"

definition ReviewViewSet_get_queryset ::
    "storage \<Rightarrow> (string \<rightharpoonup> nat) \<Rightarrow> state \<Rightarrow> error + review list" where
  "ReviewViewSet_get_queryset st kwargs s =
     (case Title_or_404 st kwargs s of
        Inl err \<Rightarrow> Inl err
      | Inr t \<Rightarrow> Inr (filter (\<lambda>r. title_fk r = title_id t) (reviews s)))"

definition ReviewViewSet_perform_create ::
    "storage \<Rightarrow> request \<Rightarrow> (string \<rightharpoonup> nat) \<Rightarrow> review_fields \<Rightarrow> state
       \<Rightarrow> (error + review) \<times> state" where
  "ReviewViewSet_perform_create st req kwargs validated_data s =
     (case Title_or_404 st kwargs s of
        Inl err \<Rightarrow> (Inl err, s)
      | Inr t \<Rightarrow> ReviewSerializer_save st validated_data (user req) t s)"

text \<open>
  The framework's \<^verbatim>\<open>CreateModelMixin.create\<close>, the handler of the create action:
  \<^verbatim>\<open>serializer.is_valid(raise_exception=True)\<close> on the request body, then
  \<^verbatim>\<open>perform_create\<close>. The validation is that of \<^verbatim>\<open>ReviewSerializer\<close>
  (\<^verbatim>\<open>api/serializers.py\<close>), the parameter \<open>is_valid\<close>: it gives the validated data or
  the error it raises.
\<close>

definition ReviewViewSet_create ::
    "storage \<Rightarrow> (review_fields \<Rightarrow> error + review_fields) \<Rightarrow> request \<Rightarrow> (string \<rightharpoonup> nat)
       \<Rightarrow> review_fields \<Rightarrow> state \<Rightarrow> (error + review) \<times> state" where
  "ReviewViewSet_create st is_valid req kwargs body s =
     (case is_valid body of
        Inl err \<Rightarrow> (Inl err, s)
      | Inr validated_data \<Rightarrow> ReviewViewSet_perform_create st req kwargs validated_data s)"

text \<open>
  A request on \<^verbatim>\<open>/titles/{title_id}/reviews/\<close>, the collection route:
  \<^verbatim>\<open>permission_classes = (IsAuthorOrReadOnlyPermission,)\<close> is checked first, then the
  handler of the method runs: create for \<^verbatim>\<open>POST\<close>, list (the queryset, before paging)
  for \<^verbatim>\<open>GET\<close> and \<^verbatim>\<open>HEAD\<close>.
\<close>

datatype collection_outcome = Created review | Listed "review list" | Collection_metadata

definition ReviewViewSet_collection ::
    "storage \<Rightarrow> (review_fields \<Rightarrow> error + review_fields) \<Rightarrow> request \<Rightarrow> (string \<rightharpoonup> nat)
       \<Rightarrow> review_fields \<Rightarrow> state \<Rightarrow> (error + collection_outcome) \<times> state" where
  "ReviewViewSet_collection st is_valid req kwargs body s =
     (case check_permissions [IsAuthorOrReadOnlyPermission] req of
        Inl err \<Rightarrow> (Inl err, s)
      | Inr ok \<Rightarrow>
          (case route False (method req) of
             None \<Rightarrow> (Inl (MethodNotAllowed (method req)), s)
           | Some a \<Rightarrow>
               (if a = A_create then
                  (case ReviewViewSet_create st is_valid req kwargs body s of
                     (Inl err, s') \<Rightarrow> (Inl err, s')
                   | (Inr r, s') \<Rightarrow> (Inr (Created r), s'))
                else if a = A_list then
                  (case ReviewViewSet_get_queryset st kwargs s of
                     Inl err \<Rightarrow> (Inl err, s)
                   | Inr queryset \<Rightarrow> (Inr (Listed queryset), s))
                else (Inr Collection_metadata, s))))"

text \<open>
  The framework's \<^verbatim>\<open>get_object\<close> on this view: the queryset, the assertion that the URL
  gave \<^verbatim>\<open>pk\<close>, the lookup, and the object-level check of the view's permission class.
\<close>

definition ReviewViewSet_get_object ::
    "storage \<Rightarrow> request \<Rightarrow> (string \<rightharpoonup> nat) \<Rightarrow> state \<Rightarrow> error + review" where
  "ReviewViewSet_get_object st req kwargs s =
     (case ReviewViewSet_get_queryset st kwargs s of
        Inl err \<Rightarrow> Inl err
      | Inr queryset \<Rightarrow>
          (case kwargs ''pk'' of
             None \<Rightarrow> Inl (ServerError ''AssertionError'')
           | Some pk \<Rightarrow>
               (if out_of_range st pk then Inl (ServerError ''OverflowError'')
                else
                  (case get_object_or_404 (\<lambda>r. review_id r = pk) queryset of
                     Inl err \<Rightarrow> Inl err
                   | Inr r \<Rightarrow>
                       (case check_object_permissions [IsAuthorOrReadOnlyPermission] req
                               \<lparr>obj_type = Review, author = review_author r\<rparr> of
                          Inl err \<Rightarrow> Inl err
                        | Inr ok \<Rightarrow> Inr r)))))"

text \<open>
  A request on one review, \<^verbatim>\<open>/titles/{title_id}/reviews/{pk}/\<close>.
\<close>

definition ReviewViewSet_detail ::
    "storage \<Rightarrow> request \<Rightarrow> (string \<rightharpoonup> nat) \<Rightarrow> state \<Rightarrow> error + review outcome" where
  "ReviewViewSet_detail st req kwargs s =
     detail_route [IsAuthorOrReadOnlyPermission] req (ReviewViewSet_get_object st req kwargs s)"

section \<open>Example data\<close>

definition admin_root :: user where
  "admin_root = \<lparr>user_id = 1, username = ''root'', email = ''root@example.org'', role = RoleAdmin\<rparr>"

definition moderator_mia :: user where
  "moderator_mia = \<lparr>user_id = 2, username = ''mia'', email = ''mia@example.org'', role = RoleModerator\<rparr>"

definition user_bob :: user where
  "user_bob = \<lparr>user_id = 3, username = ''bob'', email = ''bob@example.org'', role = RoleUser\<rparr>"

definition user_alice :: user where
  "user_alice = \<lparr>user_id = 4, username = ''alice'', email = ''alice@example.org'', role = RoleUser\<rparr>"

definition empty_state :: state where
  "empty_state = \<lparr>users = [], codes = [], titles = [], reviews = [], mail_calls = []\<rparr>"

definition title_solaris :: title where
  "title_solaris = \<lparr>title_id = 1, title_name = ''Solaris'', pub_date = 1972\<rparr>"

definition title_stalker :: title where
  "title_stalker = \<lparr>title_id = 2, title_name = ''Stalker'', pub_date = 1979\<rparr>"

text \<open>Two reviews of the first title, scored 7 and 9; none of the second.\<close>

definition rated_state :: state where
  "rated_state = \<lparr>users = [user_alice, user_bob], codes = [],
     titles = [title_solaris, title_stalker],
     reviews = [\<lparr>review_id = 1, title_fk = 1, review_author = user_alice,
                 review_text = ''good'', score = 7\<rparr>,
                \<lparr>review_id = 2, title_fk = 1, review_author = user_bob,
                 review_text = ''great'', score = 9\<rparr>],
     mail_calls = []\<rparr>"

text \<open>A request body that names an author and a title of its own.\<close>

definition forged_body :: review_fields where
  "forged_body = \<lparr>f_text = ''fine'', f_score = 6,
     f_author = Some (AuthUser admin_root), f_title = Some title_solaris\<rparr>"

text \<open>
  A storage layer with no constraint on a review and 64-bit integers, and two
  serializers: one that lets every body through, one that wants a score from 1 to 10.
\<close>

definition plain_storage :: storage where
  "plain_storage = \<lparr>constraint_ok = (\<lambda>rows r. True), out_of_range = (\<lambda>n. 2 ^ 63 \<le> n)\<rparr>"

definition any_body :: "review_fields \<Rightarrow> error + review_fields" where
  "any_body body = Inr body"

definition score_1_to_10 :: "review_fields \<Rightarrow> error + review_fields" where
  "score_1_to_10 body =
     (if 1 \<le> f_score body \<and> f_score body \<le> 10 then Inr body else Inl ValidationError)"

text \<open>An email channel that refuses every message, and a registration.\<close>

definition failing_env :: env where
  "failing_env = \<lparr>well_formed = (\<lambda>d. True), send_ok = (\<lambda>m. False),
      ADMIN_EMAIL = ''admin@example.org'', uuid4_hex = ''0f0e0d''\<rparr>"

definition signup_carol :: registration_data where
  "signup_carol = \<lparr>data_username = ''carol'', data_email = ''carol@example.org''\<rparr>"

section \<open>The object-level check of IsAuthorOrReadOnlyPermission\<close>

text \<open>
  C2. For every request method and every object, of any type and by any author, the
  object-level check of \<^verbatim>\<open>IsAuthorOrReadOnlyPermission\<close> allows an authenticated principal
  whose role is admin.
\<close>

theorem admin_has_object_permission:
  "user req = AuthUser u \<Longrightarrow> is_admin u \<Longrightarrow>
     IsAuthorOrReadOnlyPermission_has_object_permission req ob"
  by (simp add: IsAuthorOrReadOnlyPermission_has_object_permission_def authenticated_and_def)

theorem admin_has_object_permission_witness:
  "IsAuthorOrReadOnlyPermission_has_object_permission
     \<lparr>method = ''DELETE'', user = AuthUser admin_root\<rparr> \<lparr>obj_type = Other, author = user_bob\<rparr>"
proof -
  have adm: "is_admin admin_root"
    by (simp add: is_admin_def admin_root_def)
  show ?thesis
    using admin_has_object_permission
      [of "\<lparr>method = ''DELETE'', user = AuthUser admin_root\<rparr>" admin_root
          "\<lparr>obj_type = Other, author = user_bob\<rparr>"] adm
    by simp
qed

text \<open>
  C3. For an authenticated moderator who is not an admin, the object-level check allows
  every \<^verbatim>\<open>Review\<close> and every \<^verbatim>\<open>Comment\<close>, whoever wrote it; on an object of another type
  the result is that of the fallback alone: the principal is the author, or the method
  is safe. For every request the three checks have this priority: the admin check, then
  the moderator check on the two types, then the fallback.
\<close>

theorem moderator_has_object_permission:
  assumes "user req = AuthUser u" and "is_moderator u" and "\<not> is_admin u"
  shows "(obj_type ob = Review \<or> obj_type ob = Comment \<longrightarrow>
            IsAuthorOrReadOnlyPermission_has_object_permission req ob)
       \<and> (obj_type ob \<noteq> Review \<and> obj_type ob \<noteq> Comment \<longrightarrow>
            IsAuthorOrReadOnlyPermission_has_object_permission req ob =
              (user_id (author ob) = user_id u \<or> method req \<in> set SAFE_METHODS))
       \<and> (\<forall>r b. IsAuthorOrReadOnlyPermission_has_object_permission r b =
            (if authenticated_and (user r) is_admin then True
             else if (obj_type b = Comment \<or> obj_type b = Review)
                     \<and> authenticated_and (user r) is_moderator then True
             else (user_eq (author b) (user r) \<or> method r \<in> set SAFE_METHODS)))"
proof -
  have fallback: "user_eq (author ob) (user req) = (user_id (author ob) = user_id u)"
    using assms(1) by (simp add: user_eq_def)
  have no_admin: "\<not> authenticated_and (user req) is_admin"
    using assms(1,3) by (simp add: authenticated_and_def)
  have moderator: "authenticated_and (user req) is_moderator"
    using assms(1,2) by (simp add: authenticated_and_def)
  show ?thesis
    using fallback no_admin moderator
    by (simp add: IsAuthorOrReadOnlyPermission_has_object_permission_def)
qed

theorem moderator_has_object_permission_witness:
  "IsAuthorOrReadOnlyPermission_has_object_permission
     \<lparr>method = ''DELETE'', user = AuthUser moderator_mia\<rparr> \<lparr>obj_type = Review, author = user_bob\<rparr>
   \<and> \<not> IsAuthorOrReadOnlyPermission_has_object_permission
     \<lparr>method = ''DELETE'', user = AuthUser moderator_mia\<rparr> \<lparr>obj_type = Other, author = user_bob\<rparr>"
proof -
  have m: "is_moderator moderator_mia" and a: "\<not> is_admin moderator_mia"
    by (simp_all add: is_moderator_def is_admin_def moderator_mia_def)
  have ids: "user_id user_bob \<noteq> user_id moderator_mia"
    by (simp add: user_bob_def moderator_mia_def)
  have unsafe: "''DELETE'' \<notin> set SAFE_METHODS"
    by (simp add: SAFE_METHODS_def)
  have r: "user \<lparr>method = ''DELETE'', user = AuthUser moderator_mia\<rparr> = AuthUser moderator_mia"
    by simp
  have on_review: "IsAuthorOrReadOnlyPermission_has_object_permission
     \<lparr>method = ''DELETE'', user = AuthUser moderator_mia\<rparr> \<lparr>obj_type = Review, author = user_bob\<rparr>"
    using moderator_has_object_permission
        [OF r m a, of "\<lparr>obj_type = Review, author = user_bob\<rparr>", THEN conjunct1]
    by simp
  have on_other: "\<not> IsAuthorOrReadOnlyPermission_has_object_permission
     \<lparr>method = ''DELETE'', user = AuthUser moderator_mia\<rparr> \<lparr>obj_type = Other, author = user_bob\<rparr>"
    using moderator_has_object_permission
        [OF r m a, of "\<lparr>obj_type = Other, author = user_bob\<rparr>", THEN conjunct2, THEN conjunct1]
      ids unsafe
    by simp
  show ?thesis
    using on_review on_other by (rule conjI)
qed

text \<open>
  C10. When the method is safe, the object-level check allows the request for every
  object and every principal, the anonymous one included.
\<close>

theorem safe_method_has_object_permission:
  "method req \<in> set SAFE_METHODS \<Longrightarrow>
     IsAuthorOrReadOnlyPermission_has_object_permission req ob"
  by (simp add: IsAuthorOrReadOnlyPermission_has_object_permission_def)

theorem safe_method_has_object_permission_witness:
  "IsAuthorOrReadOnlyPermission_has_object_permission
     \<lparr>method = ''GET'', user = AnonymousUser\<rparr> \<lparr>obj_type = Other, author = user_bob\<rparr>"
proof -
  have safe: "''GET'' \<in> set SAFE_METHODS"
    by (simp add: SAFE_METHODS_def)
  show ?thesis
    using safe_method_has_object_permission
      [of "\<lparr>method = ''GET'', user = AnonymousUser\<rparr>" "\<lparr>obj_type = Other, author = user_bob\<rparr>"] safe
    by simp
qed

section \<open>The request-level check of IsAuthorOrReadOnlyPermission\<close>

text \<open>
  C4. The request-level check of \<^verbatim>\<open>IsAuthorOrReadOnlyPermission\<close> allows a request exactly
  when its method is one of GET, HEAD, OPTIONS or its principal is authenticated. An
  anonymous request with any other method is refused there: the dispatcher's
  \<^verbatim>\<open>check_permissions\<close> raises \<^verbatim>\<open>NotAuthenticated\<close>, and a request on one review ends with
  that error whatever the URL names, the store holds and the storage layer decides, so
  no object is looked up or checked.
\<close>

theorem has_permission_safe_or_authenticated:
  "IsAuthorOrReadOnlyPermission_has_permission req =
     (method req \<in> {''GET'', ''HEAD'', ''OPTIONS''} \<or> user req \<noteq> AnonymousUser)
   \<and> (method req \<notin> {''GET'', ''HEAD'', ''OPTIONS''} \<and> user req = AnonymousUser \<longrightarrow>
        \<not> IsAuthorOrReadOnlyPermission_has_permission req
        \<and> check_permissions [IsAuthorOrReadOnlyPermission] req = Inl NotAuthenticated
        \<and> (\<forall>st kwargs s. ReviewViewSet_detail st req kwargs s = Inl NotAuthenticated))"
proof (cases "user req")
  case AnonymousUser
  then show ?thesis
    by (simp add: IsAuthorOrReadOnlyPermission_has_permission_def SAFE_METHODS_def
        is_authenticated_def permission_denied_def ReviewViewSet_detail_def detail_route_def)
next
  case (AuthUser u)
  then show ?thesis
    by (simp add: IsAuthorOrReadOnlyPermission_has_permission_def is_authenticated_def)
qed

theorem has_permission_safe_or_authenticated_witness:
  "\<not> IsAuthorOrReadOnlyPermission_has_permission \<lparr>method = ''POST'', user = AnonymousUser\<rparr>
   \<and> check_permissions [IsAuthorOrReadOnlyPermission] \<lparr>method = ''POST'', user = AnonymousUser\<rparr>
       = Inl NotAuthenticated
   \<and> ReviewViewSet_detail plain_storage \<lparr>method = ''POST'', user = AnonymousUser\<rparr>
       [''title_id'' \<mapsto> 7, ''pk'' \<mapsto> 1] empty_state = Inl NotAuthenticated"
proof -
  have anonymous_writer:
    "method \<lparr>method = ''POST'', user = AnonymousUser\<rparr> \<notin> {''GET'', ''HEAD'', ''OPTIONS''}
     \<and> user \<lparr>method = ''POST'', user = AnonymousUser\<rparr> = AnonymousUser"
    by simp
  show ?thesis
    using has_permission_safe_or_authenticated
      [of "\<lparr>method = ''POST'', user = AnonymousUser\<rparr>", THEN conjunct2, THEN mp,
       OF anonymous_writer]
    by blast
qed

section \<open>Creating a review\<close>

lemma Title_or_404_missing:
  assumes "\<forall>t \<in> set (titles s). Some (title_id t) \<noteq> kwargs ''title_id''"
    and "\<forall>n. kwargs ''title_id'' = Some n \<longrightarrow> \<not> out_of_range st n"
  shows "Title_or_404 st kwargs s = Inl Http404"
proof (cases "kwargs ''title_id''")
  case None
  then show ?thesis by (simp add: Title_or_404_def)
next
  case (Some n)
  with assms(1) have "find (\<lambda>t. title_id t = n) (titles s) = None"
    by (auto simp: find_None_iff)
  with Some assms(2) show ?thesis
    by (simp add: Title_or_404_def get_object_or_404_def)
qed

lemma Title_or_404_no_title:
  assumes "\<forall>t \<in> set (titles s). Some (title_id t) \<noteq> kwargs ''title_id''"
  shows "\<exists>err. Title_or_404 st kwargs s = Inl err"
proof (cases "kwargs ''title_id''")
  case None
  then show ?thesis by (simp add: Title_or_404_def)
next
  case (Some n)
  with assms have "find (\<lambda>t. title_id t = n) (titles s) = None"
    by (auto simp: find_None_iff)
  with Some show ?thesis
    by (simp add: Title_or_404_def get_object_or_404_def)
qed

lemma Title_or_404_Inr:
  assumes "Title_or_404 st kwargs s = Inr t"
  shows "kwargs ''title_id'' = Some (title_id t)"
proof (cases "kwargs ''title_id''")
  case None
  with assms show ?thesis by (simp add: Title_or_404_def)
next
  case (Some n)
  with assms have "find (\<lambda>t. title_id t = n) (titles s) = Some t"
    by (simp add: Title_or_404_def get_object_or_404_def split: if_splits option.splits)
  then have "title_id t = n"
    by (auto simp: find_Some_iff)
  with Some show ?thesis by simp
qed

lemma Title_or_404_found:
  assumes "t \<in> set (titles s)" and "kwargs ''title_id'' = Some (title_id t)"
    and "\<not> out_of_range st (title_id t)"
  shows "\<exists>t'. Title_or_404 st kwargs s = Inr t' \<and> title_id t' = title_id t"
proof -
  from assms(1) have "find (\<lambda>x. title_id x = title_id t) (titles s) \<noteq> None"
    by (auto simp: find_None_iff)
  then obtain t' where f: "find (\<lambda>x. title_id x = title_id t) (titles s) = Some t'"
    by auto
  then have "title_id t' = title_id t"
    by (auto simp: find_Some_iff)
  with f assms(2,3) show ?thesis
    by (simp add: Title_or_404_def get_object_or_404_def)
qed

lemma ReviewSerializer_save_cases:
  "ReviewSerializer_save st vd p t s =
     (case p of
        AnonymousUser \<Rightarrow> (Inl (ServerError ''ValueError''), s)
      | AuthUser u \<Rightarrow>
          (if constraint_ok st (reviews s)
                \<lparr>review_id = fresh_id (map review_id (reviews s)),
                 title_fk = title_id t, review_author = u,
                 review_text = f_text vd, score = f_score vd\<rparr>
           then (Inr \<lparr>review_id = fresh_id (map review_id (reviews s)),
                      title_fk = title_id t, review_author = u,
                      review_text = f_text vd, score = f_score vd\<rparr>,
                 s\<lparr>reviews := reviews s @
                    [\<lparr>review_id = fresh_id (map review_id (reviews s)),
                      title_fk = title_id t, review_author = u,
                      review_text = f_text vd, score = f_score vd\<rparr>]\<rparr>)
           else (Inl (ServerError ''IntegrityError''), s)))"
  by (simp add: ReviewSerializer_save_def Review_objects_create_def Let_def
      split: principal.splits)

lemma ReviewSerializer_save_ignores_body:
  "ReviewSerializer_save st (vd\<lparr>f_author := a, f_title := b\<rparr>) p t s =
   ReviewSerializer_save st vd p t s"
  by (simp add: ReviewSerializer_save_def)

lemma perform_create_error:
  assumes "ReviewViewSet_perform_create st req kwargs vd s = (Inl err, s')"
  shows "s' = s"
proof (cases "Title_or_404 st kwargs s")
  case (Inl e)
  with assms show ?thesis by (simp add: ReviewViewSet_perform_create_def)
next
  case (Inr t)
  with assms show ?thesis
    by (cases "user req")
       (simp_all add: ReviewViewSet_perform_create_def ReviewSerializer_save_cases
          split: if_splits)
qed

lemma perform_create_created:
  assumes "ReviewViewSet_perform_create st req kwargs vd s = (Inr r, s')"
  shows "user req = AuthUser (review_author r) \<and> kwargs ''title_id'' = Some (title_fk r)
         \<and> s' = s\<lparr>reviews := reviews s @ [r]\<rparr>"
proof (cases "Title_or_404 st kwargs s")
  case (Inl e)
  with assms show ?thesis by (simp add: ReviewViewSet_perform_create_def)
next
  case (Inr t)
  have k: "kwargs ''title_id'' = Some (title_id t)"
    using Inr by (rule Title_or_404_Inr)
  from assms Inr k show ?thesis
    by (cases "user req")
       (auto simp: ReviewViewSet_perform_create_def ReviewSerializer_save_cases
          split: if_splits)
qed

lemma perform_create_succeeds:
  assumes "t \<in> set (titles s)" and "kwargs ''title_id'' = Some (title_id t)"
    and "\<not> out_of_range st (title_id t)" and "user req = AuthUser u"
    and "constraint_ok st (reviews s)
           \<lparr>review_id = fresh_id (map review_id (reviews s)), title_fk = title_id t,
            review_author = u, review_text = f_text vd, score = f_score vd\<rparr>"
  shows "ReviewViewSet_perform_create st req kwargs vd s =
           (Inr \<lparr>review_id = fresh_id (map review_id (reviews s)), title_fk = title_id t,
                 review_author = u, review_text = f_text vd, score = f_score vd\<rparr>,
            s\<lparr>reviews := reviews s @
               [\<lparr>review_id = fresh_id (map review_id (reviews s)), title_fk = title_id t,
                 review_author = u, review_text = f_text vd, score = f_score vd\<rparr>]\<rparr>)"
proof -
  obtain t' where t': "Title_or_404 st kwargs s = Inr t'" "title_id t' = title_id t"
    using Title_or_404_found [of t s kwargs st] assms(1,2,3) by blast
  with assms(4,5) show ?thesis
    by (simp add: ReviewViewSet_perform_create_def ReviewSerializer_save_cases)
qed

lemma collection_POST:
  assumes "method req = ''POST''"
  shows "ReviewViewSet_collection st is_valid req kwargs body s =
           (case user req of
              AnonymousUser \<Rightarrow> (Inl NotAuthenticated, s)
            | AuthUser u \<Rightarrow>
                (case is_valid body of
                   Inl err \<Rightarrow> (Inl err, s)
                 | Inr vd \<Rightarrow>
                     (case ReviewViewSet_perform_create st req kwargs vd s of
                        (Inl err, s') \<Rightarrow> (Inl err, s')
                      | (Inr r, s') \<Rightarrow> (Inr (Created r), s'))))"
  using assms
  by (simp add: ReviewViewSet_collection_def IsAuthorOrReadOnlyPermission_has_permission_def
      SAFE_METHODS_def is_authenticated_def permission_denied_def route_def
      ReviewViewSet_create_def split: principal.splits sum.splits)

lemma collection_POST_created:
  assumes "method req = ''POST''"
    and "ReviewViewSet_collection st is_valid req kwargs body s = (Inr (Created r), s')"
  shows "\<exists>vd. is_valid body = Inr vd
           \<and> ReviewViewSet_perform_create st req kwargs vd s = (Inr r, s')"
  using assms(2) unfolding collection_POST [OF assms(1)]
  by (auto split: principal.splits sum.splits prod.splits)

lemma collection_POST_error:
  assumes "method req = ''POST''"
    and "ReviewViewSet_collection st is_valid req kwargs body s = (Inl err, s')"
  shows "s' = s"
  using assms(2) unfolding collection_POST [OF assms(1)]
  by (auto split: principal.splits sum.splits prod.splits dest: perform_create_error)

text \<open>
  C6, as the claim states it, fails: a Create-Review request for a title that does not
  exist is answered with 401 when the principal is anonymous, and with the serializer's
  400 when the body is refused, not with 404. The permission check and the validation
  come before \<^verbatim>\<open>perform_create\<close> looks the title up.
\<close>

theorem review_create_counterexample:
  "ReviewViewSet_collection plain_storage any_body \<lparr>method = ''POST'', user = AnonymousUser\<rparr>
       [''title_id'' \<mapsto> 7] forged_body rated_state = (Inl NotAuthenticated, rated_state)
   \<and> ReviewViewSet_collection plain_storage score_1_to_10
       \<lparr>method = ''POST'', user = AuthUser user_alice\<rparr>
       [''title_id'' \<mapsto> 7] (forged_body\<lparr>f_score := 0\<rparr>) rated_state
     = (Inl ValidationError, rated_state)
   \<and> map title_id (titles rated_state) = [1, 2]"
  by (simp add: collection_POST score_1_to_10_def forged_body_def rated_state_def
      title_solaris_def title_stalker_def)

text \<open>
  C6, amended. For a Create-Review request (a \<^verbatim>\<open>POST\<close> on the reviews of a title):
  an anonymous principal is refused as not authenticated, and a body the serializer
  refuses ends with the serializer's error; when the principal is authenticated, the
  body is valid and the \<^verbatim>\<open>title_id\<close> of the URL, a number the storage layer can look up,
  is the id of no title, the request fails with \<^verbatim>\<open>Http404\<close>. Whenever the \<^verbatim>\<open>title_id\<close> is
  the id of no title, and whenever the request ends in an error, the store is
  unchanged: no review is persisted. A request that creates a review adds exactly that
  review, whose author is the requesting principal and whose title is the one of the
  URL; an authenticated principal with a valid body whose review the storage layer
  accepts does create it; and an author or a title in the validated data changes
  nothing in what \<^verbatim>\<open>perform_create\<close> does.
\<close>

theorem review_create_request:
  assumes "method req = ''POST''"
  shows "(user req = AnonymousUser \<longrightarrow>
            ReviewViewSet_collection st is_valid req kwargs body s = (Inl NotAuthenticated, s))
       \<and> (\<forall>err. user req \<noteq> AnonymousUser \<and> is_valid body = Inl err \<longrightarrow>
            ReviewViewSet_collection st is_valid req kwargs body s = (Inl err, s))
       \<and> (\<forall>vd. user req \<noteq> AnonymousUser \<and> is_valid body = Inr vd
              \<and> (\<forall>t \<in> set (titles s). Some (title_id t) \<noteq> kwargs ''title_id'')
              \<and> (\<forall>n. kwargs ''title_id'' = Some n \<longrightarrow> \<not> out_of_range st n) \<longrightarrow>
            ReviewViewSet_collection st is_valid req kwargs body s = (Inl Http404, s))
       \<and> ((\<forall>t \<in> set (titles s). Some (title_id t) \<noteq> kwargs ''title_id'') \<longrightarrow>
            (\<exists>err. ReviewViewSet_collection st is_valid req kwargs body s = (Inl err, s)))
       \<and> (\<forall>err s'. ReviewViewSet_collection st is_valid req kwargs body s = (Inl err, s') \<longrightarrow>
            s' = s)
       \<and> (\<forall>r s'. ReviewViewSet_collection st is_valid req kwargs body s = (Inr (Created r), s')
              \<longrightarrow> user req = AuthUser (review_author r)
                \<and> kwargs ''title_id'' = Some (title_fk r)
                \<and> s' = s\<lparr>reviews := reviews s @ [r]\<rparr>)
       \<and> (\<forall>t \<in> set (titles s). \<forall>u vd.
              kwargs ''title_id'' = Some (title_id t) \<and> \<not> out_of_range st (title_id t)
              \<and> user req = AuthUser u \<and> is_valid body = Inr vd
              \<and> constraint_ok st (reviews s)
                   \<lparr>review_id = fresh_id (map review_id (reviews s)), title_fk = title_id t,
                    review_author = u, review_text = f_text vd, score = f_score vd\<rparr> \<longrightarrow>
              ReviewViewSet_collection st is_valid req kwargs body s =
                (Inr (Created
                   \<lparr>review_id = fresh_id (map review_id (reviews s)), title_fk = title_id t,
                    review_author = u, review_text = f_text vd, score = f_score vd\<rparr>),
                 s\<lparr>reviews := reviews s @
                    [\<lparr>review_id = fresh_id (map review_id (reviews s)), title_fk = title_id t,
                      review_author = u, review_text = f_text vd, score = f_score vd\<rparr>]\<rparr>))
       \<and> (\<forall>vd a b. ReviewViewSet_perform_create st req kwargs (vd\<lparr>f_author := a, f_title := b\<rparr>) s
              = ReviewViewSet_perform_create st req kwargs vd s)"
proof (intro conjI impI allI ballI)
  assume "user req = AnonymousUser"
  then show "ReviewViewSet_collection st is_valid req kwargs body s = (Inl NotAuthenticated, s)"
    by (simp add: collection_POST [OF assms])
next
  fix err
  assume "user req \<noteq> AnonymousUser \<and> is_valid body = Inl err"
  then show "ReviewViewSet_collection st is_valid req kwargs body s = (Inl err, s)"
    by (cases "user req") (simp_all add: collection_POST [OF assms])
next
  fix vd
  assume h: "user req \<noteq> AnonymousUser \<and> is_valid body = Inr vd
              \<and> (\<forall>t \<in> set (titles s). Some (title_id t) \<noteq> kwargs ''title_id'')
              \<and> (\<forall>n. kwargs ''title_id'' = Some n \<longrightarrow> \<not> out_of_range st n)"
  then have "Title_or_404 st kwargs s = Inl Http404"
    using Title_or_404_missing by blast
  then have "ReviewViewSet_perform_create st req kwargs vd s = (Inl Http404, s)"
    by (simp add: ReviewViewSet_perform_create_def)
  with h show "ReviewViewSet_collection st is_valid req kwargs body s = (Inl Http404, s)"
    by (cases "user req") (simp_all add: collection_POST [OF assms])
next
  assume h: "\<forall>t \<in> set (titles s). Some (title_id t) \<noteq> kwargs ''title_id''"
  then obtain e where e: "Title_or_404 st kwargs s = Inl e"
    using Title_or_404_no_title by blast
  then have p: "\<And>vd. ReviewViewSet_perform_create st req kwargs vd s = (Inl e, s)"
    by (simp add: ReviewViewSet_perform_create_def)
  show "\<exists>err. ReviewViewSet_collection st is_valid req kwargs body s = (Inl err, s)"
    by (cases "user req"; cases "is_valid body") (simp_all add: collection_POST [OF assms] p)
next
  fix err s'
  assume "ReviewViewSet_collection st is_valid req kwargs body s = (Inl err, s')"
  then show "s' = s"
    by (rule collection_POST_error [OF assms])
next
  fix r s'
  assume "ReviewViewSet_collection st is_valid req kwargs body s = (Inr (Created r), s')"
  then obtain vd where "ReviewViewSet_perform_create st req kwargs vd s = (Inr r, s')"
    using collection_POST_created [OF assms] by blast
  then have c: "user req = AuthUser (review_author r) \<and> kwargs ''title_id'' = Some (title_fk r)
         \<and> s' = s\<lparr>reviews := reviews s @ [r]\<rparr>"
    by (rule perform_create_created)
  from c show "user req = AuthUser (review_author r)" by simp
  from c show "kwargs ''title_id'' = Some (title_fk r)" by simp
  from c show "s' = s\<lparr>reviews := reviews s @ [r]\<rparr>" by simp
next
  fix t u vd
  assume t: "t \<in> set (titles s)"
    and h: "kwargs ''title_id'' = Some (title_id t) \<and> \<not> out_of_range st (title_id t)
              \<and> user req = AuthUser u \<and> is_valid body = Inr vd
              \<and> constraint_ok st (reviews s)
                   \<lparr>review_id = fresh_id (map review_id (reviews s)), title_fk = title_id t,
                    review_author = u, review_text = f_text vd, score = f_score vd\<rparr>"
  have "ReviewViewSet_perform_create st req kwargs vd s =
           (Inr \<lparr>review_id = fresh_id (map review_id (reviews s)), title_fk = title_id t,
                 review_author = u, review_text = f_text vd, score = f_score vd\<rparr>,
            s\<lparr>reviews := reviews s @
               [\<lparr>review_id = fresh_id (map review_id (reviews s)), title_fk = title_id t,
                 review_author = u, review_text = f_text vd, score = f_score vd\<rparr>]\<rparr>)"
    using perform_create_succeeds [OF t] h by blast
  with h show "ReviewViewSet_collection st is_valid req kwargs body s =
                (Inr (Created
                   \<lparr>review_id = fresh_id (map review_id (reviews s)), title_fk = title_id t,
                    review_author = u, review_text = f_text vd, score = f_score vd\<rparr>),
                 s\<lparr>reviews := reviews s @
                    [\<lparr>review_id = fresh_id (map review_id (reviews s)), title_fk = title_id t,
                      review_author = u, review_text = f_text vd, score = f_score vd\<rparr>]\<rparr>)"
    by (simp add: collection_POST [OF assms])
next
  fix vd a b
  show "ReviewViewSet_perform_create st req kwargs (vd\<lparr>f_author := a, f_title := b\<rparr>) s
              = ReviewViewSet_perform_create st req kwargs vd s"
    by (simp add: ReviewViewSet_perform_create_def ReviewSerializer_save_ignores_body
        split: sum.splits)
qed

theorem review_create_request_witness:
  "ReviewViewSet_collection plain_storage any_body
       \<lparr>method = ''POST'', user = AuthUser user_alice\<rparr>
       [''title_id'' \<mapsto> 7] forged_body rated_state = (Inl Http404, rated_state)
   \<and> (\<exists>r. ReviewViewSet_collection plain_storage any_body
              \<lparr>method = ''POST'', user = AuthUser user_alice\<rparr>
              [''title_id'' \<mapsto> 2] forged_body rated_state
            = (Inr (Created r), rated_state\<lparr>reviews := reviews rated_state @ [r]\<rparr>)
          \<and> review_author r = user_alice \<and> title_fk r = 2)"
proof -
  let ?req = "\<lparr>method = ''POST'', user = AuthUser user_alice\<rparr>"
  have post: "method ?req = ''POST''"
    by simp
  have missing: "user ?req \<noteq> AnonymousUser \<and> any_body forged_body = Inr forged_body
      \<and> (\<forall>t \<in> set (titles rated_state). Some (title_id t) \<noteq> [''title_id'' \<mapsto> 7::nat] ''title_id'')
      \<and> (\<forall>n. [''title_id'' \<mapsto> 7::nat] ''title_id'' = Some n \<longrightarrow> \<not> out_of_range plain_storage n)"
    by (simp add: any_body_def rated_state_def title_solaris_def title_stalker_def
        plain_storage_def)
  have first: "ReviewViewSet_collection plain_storage any_body ?req
       [''title_id'' \<mapsto> 7] forged_body rated_state = (Inl Http404, rated_state)"
    using review_create_request
      [OF post, of plain_storage any_body "[''title_id'' \<mapsto> 7]" forged_body rated_state,
       THEN conjunct2, THEN conjunct2, THEN conjunct1] missing
    by blast
  have there: "title_stalker \<in> set (titles rated_state)"
    by (simp add: rated_state_def)
  have named: "[''title_id'' \<mapsto> 2::nat] ''title_id'' = Some (title_id title_stalker)
      \<and> \<not> out_of_range plain_storage (title_id title_stalker)
      \<and> user ?req = AuthUser user_alice \<and> any_body forged_body = Inr forged_body
      \<and> constraint_ok plain_storage (reviews rated_state)
           \<lparr>review_id = fresh_id (map review_id (reviews rated_state)),
            title_fk = title_id title_stalker, review_author = user_alice,
            review_text = f_text forged_body, score = f_score forged_body\<rparr>"
    by (simp add: any_body_def title_stalker_def plain_storage_def)
  have second: "ReviewViewSet_collection plain_storage any_body ?req
       [''title_id'' \<mapsto> 2] forged_body rated_state =
         (Inr (Created
            \<lparr>review_id = fresh_id (map review_id (reviews rated_state)),
             title_fk = title_id title_stalker, review_author = user_alice,
             review_text = f_text forged_body, score = f_score forged_body\<rparr>),
          rated_state\<lparr>reviews := reviews rated_state @
             [\<lparr>review_id = fresh_id (map review_id (reviews rated_state)),
               title_fk = title_id title_stalker, review_author = user_alice,
               review_text = f_text forged_body, score = f_score forged_body\<rparr>]\<rparr>)"
    using review_create_request
      [OF post, of plain_storage any_body "[''title_id'' \<mapsto> 2]" forged_body rated_state,
       THEN conjunct2, THEN conjunct2, THEN conjunct2, THEN conjunct2, THEN conjunct2,
       THEN conjunct2, THEN conjunct1, THEN bspec, OF there] named
    by blast
  have "title_id title_stalker = 2"
    by (simp add: title_stalker_def)
  with first second show ?thesis
    by auto
qed

section \<open>Categories and genres\<close>

lemma check_IsAdminOrReadOnly:
  "check_permissions [IsAdminOrReadOnly] req =
     (if method req \<in> set SAFE_METHODS \<or> authenticated_and (user req) is_admin then Inr ()
      else Inl (permission_denied req))"
  by (simp add: IsAdminOrReadOnly_has_permission_def)

text \<open>
  C7, as the claim states it, fails: an update of one category by an authenticated
  user who is not an admin is refused by the permission check with 403, not answered
  with 405.
\<close>

theorem category_update_by_user_counterexample:
  "CategoriesViewSet_dispatch True \<lparr>method = ''PUT'', user = AuthUser user_bob\<rparr> = Inl PermissionDenied
   \<and> \<not> is_405 (CategoriesViewSet_dispatch True \<lparr>method = ''PUT'', user = AuthUser user_bob\<rparr>)"
  by (simp add: CategoriesViewSet_dispatch_def IsAdminOrReadOnly_has_permission_def
      SAFE_METHODS_def authenticated_and_def is_admin_def user_bob_def permission_denied_def
      is_authenticated_def)

text \<open>
  C7, amended. On one category or genre: a retrieve (GET or HEAD) is answered with 405
  for every principal; an update (PUT or PATCH) is answered with 405 for an admin and is
  refused by the permission check for every other principal. The inherited handlers of
  retrieve, update and partial update never run; list is served to everyone, create and
  delete to an admin. \<^verbatim>\<open>GenresViewSet\<close> behaves as \<^verbatim>\<open>CategoriesViewSet\<close>.
\<close>

theorem category_retrieve_update_not_allowed:
  "(method req \<in> {''GET'', ''HEAD''} \<longrightarrow>
      CategoriesViewSet_dispatch True req = Inr (Response 405))
   \<and> (method req \<in> {''PUT'', ''PATCH''} \<longrightarrow>
      CategoriesViewSet_dispatch True req =
        (if authenticated_and (user req) is_admin then Inr (Response 405)
         else Inl (permission_denied req)))
   \<and> (\<forall>detail a. CategoriesViewSet_dispatch detail req = Inr (Inherited a) \<longrightarrow>
        a \<noteq> A_retrieve \<and> a \<noteq> A_update \<and> a \<noteq> A_partial_update)
   \<and> (method req \<in> {''GET'', ''HEAD''} \<longrightarrow>
      CategoriesViewSet_dispatch False req = Inr (Inherited A_list))
   \<and> (authenticated_and (user req) is_admin \<and> method req = ''POST'' \<longrightarrow>
      CategoriesViewSet_dispatch False req = Inr (Inherited A_create))
   \<and> (authenticated_and (user req) is_admin \<and> method req = ''DELETE'' \<longrightarrow>
      CategoriesViewSet_dispatch True req = Inr (Inherited A_destroy))
   \<and> (\<forall>detail. GenresViewSet_dispatch detail req = CategoriesViewSet_dispatch detail req)"
proof (intro conjI impI allI)
  assume "method req \<in> {''GET'', ''HEAD''}"
  then show "CategoriesViewSet_dispatch True req = Inr (Response 405)"
    by (auto simp del: check_permissions.simps
        simp: CategoriesViewSet_dispatch_def check_IsAdminOrReadOnly SAFE_METHODS_def
        route_def CategoriesViewSet_handler_def CategoriesViewSet_retrieve_def)
next
  assume "method req \<in> {''PUT'', ''PATCH''}"
  then show "CategoriesViewSet_dispatch True req =
        (if authenticated_and (user req) is_admin then Inr (Response 405)
         else Inl (permission_denied req))"
    by (auto simp del: check_permissions.simps
        simp: CategoriesViewSet_dispatch_def check_IsAdminOrReadOnly SAFE_METHODS_def
        route_def CategoriesViewSet_handler_def CategoriesViewSet_update_def)
next
  fix detail a
  assume "CategoriesViewSet_dispatch detail req = Inr (Inherited a)"
  then have "\<exists>b. route detail (method req) = Some b \<and> CategoriesViewSet_handler b req = Inherited a"
    by (auto simp: CategoriesViewSet_dispatch_def split: sum.splits option.splits)
  then obtain b where "CategoriesViewSet_handler b req = Inherited a" by blast
  then show "a \<noteq> A_retrieve" and "a \<noteq> A_update" and "a \<noteq> A_partial_update"
    by (cases b; simp add: CategoriesViewSet_handler_def CategoriesViewSet_retrieve_def
          CategoriesViewSet_update_def; fail)+
next
  assume "method req \<in> {''GET'', ''HEAD''}"
  then show "CategoriesViewSet_dispatch False req = Inr (Inherited A_list)"
    by (auto simp del: check_permissions.simps
        simp: CategoriesViewSet_dispatch_def check_IsAdminOrReadOnly SAFE_METHODS_def
        route_def CategoriesViewSet_handler_def)
next
  assume "authenticated_and (user req) is_admin \<and> method req = ''POST''"
  then show "CategoriesViewSet_dispatch False req = Inr (Inherited A_create)"
    by (simp del: check_permissions.simps add: CategoriesViewSet_dispatch_def check_IsAdminOrReadOnly
        route_def CategoriesViewSet_handler_def)
next
  assume "authenticated_and (user req) is_admin \<and> method req = ''DELETE''"
  then show "CategoriesViewSet_dispatch True req = Inr (Inherited A_destroy)"
    by (simp del: check_permissions.simps add: CategoriesViewSet_dispatch_def check_IsAdminOrReadOnly
        route_def CategoriesViewSet_handler_def)
next
  fix detail
  show "GenresViewSet_dispatch detail req = CategoriesViewSet_dispatch detail req"
    by (simp add: GenresViewSet_dispatch_def)
qed

theorem category_retrieve_update_not_allowed_witness:
  "CategoriesViewSet_dispatch True \<lparr>method = ''GET'', user = AnonymousUser\<rparr> = Inr (Response 405)
   \<and> CategoriesViewSet_dispatch True \<lparr>method = ''PUT'', user = AuthUser admin_root\<rparr>
       = Inr (Response 405)
   \<and> CategoriesViewSet_dispatch True \<lparr>method = ''DELETE'', user = AuthUser admin_root\<rparr>
       = Inr (Inherited A_destroy)
   \<and> GenresViewSet_dispatch True \<lparr>method = ''PUT'', user = AuthUser admin_root\<rparr>
       = Inr (Response 405)"
proof -
  have adm: "authenticated_and (AuthUser admin_root) is_admin"
    by (simp add: authenticated_and_def is_admin_def admin_root_def)
  have one: "CategoriesViewSet_dispatch True \<lparr>method = ''GET'', user = AnonymousUser\<rparr>
       = Inr (Response 405)"
    using category_retrieve_update_not_allowed
      [of "\<lparr>method = ''GET'', user = AnonymousUser\<rparr>", THEN conjunct1]
    by simp
  note th = category_retrieve_update_not_allowed
      [of "\<lparr>method = ''PUT'', user = AuthUser admin_root\<rparr>"]
  have two: "CategoriesViewSet_dispatch True \<lparr>method = ''PUT'', user = AuthUser admin_root\<rparr>
       = Inr (Response 405)"
    using th [THEN conjunct2, THEN conjunct1] adm by simp
  have three: "CategoriesViewSet_dispatch True \<lparr>method = ''DELETE'', user = AuthUser admin_root\<rparr>
       = Inr (Inherited A_destroy)"
    using category_retrieve_update_not_allowed
      [of "\<lparr>method = ''DELETE'', user = AuthUser admin_root\<rparr>"] adm
    by simp
  have four: "GenresViewSet_dispatch True \<lparr>method = ''PUT'', user = AuthUser admin_root\<rparr>
       = Inr (Response 405)"
    using th two by simp
  show ?thesis using one two three four by simp
qed

section \<open>The user alias me\<close>

lemma is_me_alias: "is_me [''username'' \<mapsto> ''me'']"
  by (simp add: is_me_def)

lemma me_authenticated_passes:
  "is_me kwargs \<Longrightarrow> user req = AuthUser u \<Longrightarrow>
     check_permissions (UserViewSet_get_permissions kwargs) req = Inr ()"
  by (simp add: UserViewSet_get_permissions_def is_authenticated_def)

lemma me_anonymous_refused:
  "is_me kwargs \<Longrightarrow> user req = AnonymousUser \<Longrightarrow>
     check_permissions (UserViewSet_get_permissions kwargs) req = Inl NotAuthenticated"
  by (simp add: UserViewSet_get_permissions_def is_authenticated_def permission_denied_def)

text \<open>
  C8, as the claim states it, fails twice: for the anonymous principal the view's
  permission for the alias, \<^verbatim>\<open>IsAuthenticated\<close>, refuses a DELETE with 401 before
  \<^verbatim>\<open>get_object\<close> can raise \<^verbatim>\<open>MethodNotAllowed\<close>; and a method other than DELETE for which
  the route has no handler, such as POST, is answered with 405 and resolves nothing.
\<close>

theorem anonymous_delete_me_counterexample:
  "UserViewSet_detail \<lparr>method = ''DELETE'', user = AnonymousUser\<rparr> [''username'' \<mapsto> ''me'']
       empty_state = Inl NotAuthenticated
   \<and> status_code NotAuthenticated = 401
   \<and> UserViewSet_detail \<lparr>method = ''POST'', user = AuthUser user_bob\<rparr> [''username'' \<mapsto> ''me'']
       empty_state = Inl (MethodNotAllowed ''POST'')"
  by (simp add: UserViewSet_detail_def detail_route_def UserViewSet_get_permissions_def
      is_me_def is_authenticated_def permission_denied_def route_def)

text \<open>
  C8, amended. On the alias \<^verbatim>\<open>me\<close>: \<^verbatim>\<open>get_object\<close> raises \<^verbatim>\<open>MethodNotAllowed\<close> for DELETE
  and returns the requesting principal for every other method; \<^verbatim>\<open>get_permissions\<close> lets
  a request through exactly when its principal is authenticated. So a DELETE by an
  authenticated principal, whatever the role, is rejected with 405; GET, HEAD, PUT and
  PATCH by an authenticated principal run their handler on that principal; a method
  the route has no handler for is answered with 405; and an anonymous request is
  refused as not authenticated.
\<close>

theorem me_alias_delete_not_allowed:
  assumes "is_me kwargs"
  shows "(method req = ''DELETE'' \<longrightarrow>
            UserViewSet_get_object req kwargs s = Inl (MethodNotAllowed ''DELETE''))
       \<and> (method req \<noteq> ''DELETE'' \<longrightarrow> UserViewSet_get_object req kwargs s = Inr (user req))
       \<and> (check_permissions (UserViewSet_get_permissions kwargs) req = Inr ()
            \<longleftrightarrow> is_authenticated (user req))
       \<and> (\<forall>u. user req = AuthUser u \<and> method req = ''DELETE'' \<longrightarrow>
            UserViewSet_detail req kwargs s = Inl (MethodNotAllowed ''DELETE'')
            \<and> status_code (MethodNotAllowed ''DELETE'') = 405)
       \<and> (\<forall>u. user req = AuthUser u \<and> (method req = ''GET'' \<or> method req = ''HEAD'') \<longrightarrow>
            UserViewSet_detail req kwargs s = Inr (Fetched A_retrieve (AuthUser u)))
       \<and> (\<forall>u. user req = AuthUser u \<and> method req = ''PUT'' \<longrightarrow>
            UserViewSet_detail req kwargs s = Inr (Fetched A_update (AuthUser u)))
       \<and> (\<forall>u. user req = AuthUser u \<and> method req = ''PATCH'' \<longrightarrow>
            UserViewSet_detail req kwargs s = Inr (Fetched A_partial_update (AuthUser u)))
       \<and> (\<forall>u. user req = AuthUser u \<and> route True (method req) = None \<longrightarrow>
            UserViewSet_detail req kwargs s = Inl (MethodNotAllowed (method req))
            \<and> status_code (MethodNotAllowed (method req)) = 405)
       \<and> (user req = AnonymousUser \<longrightarrow> UserViewSet_detail req kwargs s = Inl NotAuthenticated)"
proof (intro conjI impI allI)
  assume "method req = ''DELETE''"
  with assms show "UserViewSet_get_object req kwargs s = Inl (MethodNotAllowed ''DELETE'')"
    by (simp add: UserViewSet_get_object_def)
next
  assume "method req \<noteq> ''DELETE''"
  with assms show "UserViewSet_get_object req kwargs s = Inr (user req)"
    by (simp add: UserViewSet_get_object_def)
next
  show "check_permissions (UserViewSet_get_permissions kwargs) req = Inr ()
          \<longleftrightarrow> is_authenticated (user req)"
    using assms by (simp add: UserViewSet_get_permissions_def)
next
  fix u assume "user req = AuthUser u \<and> method req = ''DELETE''"
  then show "UserViewSet_detail req kwargs s = Inl (MethodNotAllowed ''DELETE'')"
    using assms me_authenticated_passes [OF assms, of req u]
    by (simp add: UserViewSet_detail_def detail_route_def route_def UserViewSet_get_object_def)
next
  fix u show "status_code (MethodNotAllowed ''DELETE'') = 405"
    by simp
next
  fix u assume "user req = AuthUser u \<and> (method req = ''GET'' \<or> method req = ''HEAD'')"
  then show "UserViewSet_detail req kwargs s = Inr (Fetched A_retrieve (AuthUser u))"
    using assms me_authenticated_passes [OF assms, of req u]
    by (auto simp: UserViewSet_detail_def detail_route_def route_def UserViewSet_get_object_def)
next
  fix u assume "user req = AuthUser u \<and> method req = ''PUT''"
  then show "UserViewSet_detail req kwargs s = Inr (Fetched A_update (AuthUser u))"
    using assms me_authenticated_passes [OF assms, of req u]
    by (simp add: UserViewSet_detail_def detail_route_def route_def UserViewSet_get_object_def)
next
  fix u assume "user req = AuthUser u \<and> method req = ''PATCH''"
  then show "UserViewSet_detail req kwargs s = Inr (Fetched A_partial_update (AuthUser u))"
    using assms me_authenticated_passes [OF assms, of req u]
    by (simp add: UserViewSet_detail_def detail_route_def route_def UserViewSet_get_object_def)
next
  fix u assume "user req = AuthUser u \<and> route True (method req) = None"
  then show "UserViewSet_detail req kwargs s = Inl (MethodNotAllowed (method req))"
    using me_authenticated_passes [OF assms, of req u]
    by (simp add: UserViewSet_detail_def detail_route_def)
next
  fix u show "status_code (MethodNotAllowed (method req)) = 405"
    by simp
next
  assume "user req = AnonymousUser"
  then show "UserViewSet_detail req kwargs s = Inl NotAuthenticated"
    using me_anonymous_refused [OF assms, of req]
    by (simp add: UserViewSet_detail_def detail_route_def)
qed

theorem me_alias_delete_not_allowed_witness:
  "UserViewSet_detail \<lparr>method = ''DELETE'', user = AuthUser admin_root\<rparr>
       [''username'' \<mapsto> ''me''] empty_state = Inl (MethodNotAllowed ''DELETE'')
   \<and> UserViewSet_detail \<lparr>method = ''PATCH'', user = AuthUser user_bob\<rparr>
       [''username'' \<mapsto> ''me''] empty_state = Inr (Fetched A_partial_update (AuthUser user_bob))"
proof -
  have d: "user \<lparr>method = ''DELETE'', user = AuthUser admin_root\<rparr> = AuthUser admin_root
           \<and> method \<lparr>method = ''DELETE'', user = AuthUser admin_root\<rparr> = ''DELETE''"
    by simp
  have p: "user \<lparr>method = ''PATCH'', user = AuthUser user_bob\<rparr> = AuthUser user_bob
           \<and> method \<lparr>method = ''PATCH'', user = AuthUser user_bob\<rparr> = ''PATCH''"
    by simp
  have one: "UserViewSet_detail \<lparr>method = ''DELETE'', user = AuthUser admin_root\<rparr>
       [''username'' \<mapsto> ''me''] empty_state = Inl (MethodNotAllowed ''DELETE'')"
    using me_alias_delete_not_allowed
        [OF is_me_alias, of "\<lparr>method = ''DELETE'', user = AuthUser admin_root\<rparr>" empty_state]
      d by blast
  have two: "UserViewSet_detail \<lparr>method = ''PATCH'', user = AuthUser user_bob\<rparr>
       [''username'' \<mapsto> ''me''] empty_state = Inr (Fetched A_partial_update (AuthUser user_bob))"
    using me_alias_delete_not_allowed
        [OF is_me_alias, of "\<lparr>method = ''PATCH'', user = AuthUser user_bob\<rparr>" empty_state]
      p by blast
  show ?thesis using one two by (rule conjI)
qed

section \<open>Registration\<close>

text \<open>
  C9. A registration whose username is that of a stored user is rejected with
  \<^verbatim>\<open>ValidationError\<close>; the store is unchanged (no user, no confirmation code) and nothing
  is handed to the email channel. More generally, whatever error the validation raises
  is the outcome of the call, and the state is left as it was: the view validates before
  it saves or sends anything.
\<close>

theorem duplicate_username_rejected:
  "(data_username d \<in> set (map username (users s)) \<longrightarrow>
      RegistrationView_post e d s = (Inl ValidationError, s))
   \<and> (\<forall>err. RegistrationSerializer_is_valid (well_formed e) s d = Inl err \<longrightarrow>
        RegistrationView_post e d s = (Inl err, s))"
  by (simp add: RegistrationView_post_def RegistrationSerializer_is_valid_def)

theorem duplicate_username_rejected_witness:
  "RegistrationView_post failing_env
       \<lparr>data_username = ''alice'', data_email = ''other@example.org''\<rparr> rated_state
     = (Inl ValidationError, rated_state)
   \<and> users rated_state = [user_alice, user_bob]"
proof -
  have taken: "data_username \<lparr>data_username = ''alice'', data_email = ''other@example.org''\<rparr>
                 \<in> set (map username (users rated_state))"
    by (simp add: rated_state_def user_alice_def)
  have stored: "users rated_state = [user_alice, user_bob]"
    by (simp add: rated_state_def)
  show ?thesis
    using duplicate_username_rejected [THEN conjunct1, THEN mp, OF taken] stored
    by (rule conjI)
qed

text \<open>
  C1, as the claim states it, fails: with a channel that refuses the message, the
  registration of a new user into the empty store ends with an error, and the store
  then holds the user and the confirmation code.
\<close>

theorem failed_email_keeps_user_counterexample:
  "RegistrationSerializer_is_valid (well_formed failing_env) empty_state signup_carol
     = Inr signup_carol
   \<and> fst (RegistrationView_post failing_env signup_carol empty_state)
     = Inl (ServerError ''SMTPException'')
   \<and> users (snd (RegistrationView_post failing_env signup_carol empty_state))
     = [\<lparr>user_id = 1, username = ''carol'', email = ''carol@example.org'', role = RoleUser\<rparr>]
   \<and> map code (codes (snd (RegistrationView_post failing_env signup_carol empty_state)))
     = [''0f0e0d'']
   \<and> users empty_state = [] \<and> codes empty_state = []"
  by (simp add: RegistrationView_post_def RegistrationSerializer_is_valid_def
      User_save_def ConfirmationCode_save_def send_mail_def failing_env_def signup_carol_def
      empty_state_def fresh_id_def default_role_def Let_def)

text \<open>
  C1, amended. When the input is valid and the email channel refuses the confirmation
  message, the registration ends with the channel's error, not with a response; the
  user and the confirmation code, saved before the dispatch, stay in the store.
\<close>

theorem failed_email_surfaces_error:
  assumes "RegistrationSerializer_is_valid (well_formed e) s d = Inr d"
    and "\<not> send_ok e \<lparr>subject = ''Your confirmation code'', message = uuid4_hex e,
                   from_email = ADMIN_EMAIL e, recipient_list = [data_email d]\<rparr>"
  shows "RegistrationView_post e d s =
           (Inl (ServerError ''SMTPException''),
            s\<lparr>users := users s @ [\<lparr>user_id = fresh_id (map user_id (users s)),
                   username = data_username d, email = data_email d, role = default_role\<rparr>],
               codes := codes s @ [\<lparr>code_user = \<lparr>user_id = fresh_id (map user_id (users s)),
                   username = data_username d, email = data_email d, role = default_role\<rparr>,
                   code = uuid4_hex e\<rparr>],
               mail_calls := mail_calls s @ [\<lparr>subject = ''Your confirmation code'',
                   message = uuid4_hex e, from_email = ADMIN_EMAIL e,
                   recipient_list = [data_email d]\<rparr>]\<rparr>)"
  using assms
  by (simp add: RegistrationView_post_def User_save_def ConfirmationCode_save_def
      send_mail_def Let_def)

theorem failed_email_surfaces_error_witness:
  "fst (RegistrationView_post failing_env signup_carol empty_state)
     = Inl (ServerError ''SMTPException'')
   \<and> map username (users (snd (RegistrationView_post failing_env signup_carol empty_state)))
     = [''carol'']"
proof -
  have valid: "RegistrationSerializer_is_valid (well_formed failing_env) empty_state signup_carol
                 = Inr signup_carol"
    by (simp add: RegistrationSerializer_is_valid_def failing_env_def empty_state_def)
  have refused: "\<not> send_ok failing_env \<lparr>subject = ''Your confirmation code'',
                   message = uuid4_hex failing_env, from_email = ADMIN_EMAIL failing_env,
                   recipient_list = [data_email signup_carol]\<rparr>"
    by (simp add: failing_env_def)
  show ?thesis
    using failed_email_surfaces_error [OF valid refused]
    by (simp add: empty_state_def signup_carol_def)
qed

end
